theory Spec2Isabelle
  imports Main
begin

section \<open>The KnowHOWREPR representation (src/metamodel/reprs/KnowHOWREPR.c)\<close>

text \<open>
  KnowHOWREPR.c implements the representation that stores the state of a KnowHOW
  meta-object during the bootstrap of the object model. Its functions work on Parrot
  PMCs through pointers: they allocate C structs, wrap them in PMCs, write fields
  through raw pointers after the wrapping, and throw Parrot exceptions. The embedding
  keeps all of that explicit: an interpreter state with a C memory and a PMC arena,
  pointers as values, every function taking the interpreter and returning it together
  with either its C return value or an error.
\<close>

subsection \<open>Pointers and structs\<close>

type_synonym addr = nat

text \<open>
  A \<^verbatim>\<open>PMC *\<close>. Zero-filled memory holds the C null pointer \<open>NULL\<close>; Parrot also has
  the distinguished null object \<open>PMCNULL\<close>; \<open>PMC a\<close> points to the PMC at index \<open>a\<close>
  of the arena.
\<close>

datatype pmc = NULL | PMCNULL | PMC addr

text \<open>
  Modelled from the spec: the struct declarations of rakudoobject.h and KnowHOWREPR.h
  are missing. The fields are the ones KnowHOWREPR.c reads and writes
  (\<^verbatim>\<open>obj->common.stable\<close>, \<^verbatim>\<open>obj->methods\<close>, \<^verbatim>\<open>obj->attributes\<close>, \<^verbatim>\<open>st->WHAT\<close>) and the
  ones the spec gives an STable: a reference to its representation, to its type object
  and to its meta-object (HOW).
\<close>

record RakudoObjectCommonalities =
  stable :: pmc

record KnowHOWREPRInstance =
  common :: RakudoObjectCommonalities
  methods :: pmc
  attributes :: pmc

record STable =
  REPR :: pmc
  HOW :: pmc
  WHAT :: pmc

text \<open>What a raw C pointer (the result of an allocation, or \<^verbatim>\<open>PMC_data\<close>) points to.\<close>

datatype cstruct =
    KnowHOWREPRInstance_struct KnowHOWREPRInstance
  | STable_struct STable

text \<open>
  The PMCs of the arena: Parrot's own Hash and ResizablePMCArray (the containers of
  the method mapping and the attribute sequence), a PMC whose \<^verbatim>\<open>PMC_data\<close> points to a
  C struct (an object or an STable), and any other PMC, of which nothing is known.
\<close>

datatype pmc_obj =
    Hash "string \<rightharpoonup> pmc"
  | ResizablePMCArray "pmc list"
  | Data_PMC addr
  | Other_PMC

text \<open>
  The interpreter (\<^verbatim>\<open>PARROT_INTERP\<close>): the C memory, the PMC arena, and the PMCs the
  collector has been told to be alive, in the order of the calls of
  \<^verbatim>\<open>Parrot_gc_mark_PMC_alive\<close>.
\<close>

record parrot_interp =
  cmem :: "cstruct list"
  arena :: "pmc_obj list"
  gc_marked :: "pmc list"

subsection \<open>Errors\<close>

text \<open>
  \<open>Exception\<close> is a Parrot exception thrown by \<^verbatim>\<open>Parrot_ex_throw_from_c_args\<close>, with
  its type and message. \<open>Invalid_pointer\<close> stands for what C leaves undefined: reading
  or writing through a pointer that does not point to a struct of the expected type.
\<close>

datatype exception_type = EXCEPTION_INVALID_OPERATION

datatype error = Exception exception_type string | Invalid_pointer

type_synonym 'a result = "(error + 'a) \<times> parrot_interp"

subsection \<open>What Parrot provides\<close>

text \<open>
  The macros and functions of Parrot that KnowHOWREPR.c calls, each with the part of
  its effect that the functions of this file depend on. \<^verbatim>\<open>PMC_IS_NULL\<close> holds of the C
  null pointer and of \<open>PMCNULL\<close>. \<^verbatim>\<open>PMC_data\<close> is the data pointer of a PMC; it is read
  here only to be cast to a struct pointer, so that it has no value where the pointer is
  null, points to no PMC, or the PMC's data is not a struct.
\<close>

definition PMC_IS_NULL :: "pmc \<Rightarrow> bool" where
  "PMC_IS_NULL p = (p = PMCNULL \<or> p = NULL)"

definition PMC_data :: "parrot_interp \<Rightarrow> pmc \<Rightarrow> addr option" where
  "PMC_data interp p =
     (case p of
        PMC a \<Rightarrow>
          (if a < length (arena interp)
           then (case arena interp ! a of Data_PMC d \<Rightarrow> Some d | _ \<Rightarrow> None)
           else None)
      | _ \<Rightarrow> None)"

text \<open>
  Reads through a struct pointer after a cast: the struct at the address, if the
  address is allocated and holds a struct of the type of the cast.
\<close>

definition KnowHOWREPRInstance_at :: "parrot_interp \<Rightarrow> addr \<Rightarrow> KnowHOWREPRInstance option" where
  "KnowHOWREPRInstance_at interp d =
     (if d < length (cmem interp)
      then (case cmem interp ! d of KnowHOWREPRInstance_struct i \<Rightarrow> Some i | _ \<Rightarrow> None)
      else None)"

definition STable_at :: "parrot_interp \<Rightarrow> addr \<Rightarrow> STable option" where
  "STable_at interp d =
     (if d < length (cmem interp)
      then (case cmem interp ! d of STable_struct s \<Rightarrow> Some s | _ \<Rightarrow> None)
      else None)"

text \<open>A write through a struct pointer: \<open>f\<close> is the field update.\<close>

definition store_KnowHOWREPRInstance ::
  "parrot_interp \<Rightarrow> addr \<Rightarrow> (KnowHOWREPRInstance \<Rightarrow> KnowHOWREPRInstance) \<Rightarrow> parrot_interp option" where
  "store_KnowHOWREPRInstance interp d f =
     (case KnowHOWREPRInstance_at interp d of
        None \<Rightarrow> None
      | Some i \<Rightarrow> Some (interp\<lparr>cmem := (cmem interp)[d := KnowHOWREPRInstance_struct (f i)]\<rparr>))"

definition store_STable ::
  "parrot_interp \<Rightarrow> addr \<Rightarrow> (STable \<Rightarrow> STable) \<Rightarrow> parrot_interp option" where
  "store_STable interp d f =
     (case STable_at interp d of
        None \<Rightarrow> None
      | Some s \<Rightarrow> Some (interp\<lparr>cmem := (cmem interp)[d := STable_struct (f s)]\<rparr>))"

text \<open>
  \<^verbatim>\<open>mem_allocate_zeroed_typed(KnowHOWREPRInstance)\<close>: a new struct, at an address not in
  use, with every field zero.
\<close>

definition mem_allocate_zeroed_typed_KnowHOWREPRInstance :: "parrot_interp \<Rightarrow> addr \<times> parrot_interp" where
  "mem_allocate_zeroed_typed_KnowHOWREPRInstance interp =
     (length (cmem interp),
      interp\<lparr>cmem := cmem interp @
        [KnowHOWREPRInstance_struct
           \<lparr>common = \<lparr>stable = NULL\<rparr>, methods = NULL, attributes = NULL\<rparr>]\<rparr>)"

datatype pmc_class = enum_class_Hash | enum_class_ResizablePMCArray

fun pmc_init :: "pmc_class \<Rightarrow> pmc_obj" where
  "pmc_init enum_class_Hash = Hash Map.empty"
| "pmc_init enum_class_ResizablePMCArray = ResizablePMCArray []"

text \<open>\<^verbatim>\<open>pmc_new\<close>: a new, empty PMC of the class, at an index of the arena not in use.\<close>

definition pmc_new :: "parrot_interp \<Rightarrow> pmc_class \<Rightarrow> pmc \<times> parrot_interp" where
  "pmc_new interp c =
     (PMC (length (arena interp)), interp\<lparr>arena := arena interp @ [pmc_init c]\<rparr>)"

text \<open>
  \<^verbatim>\<open>Parrot_gc_mark_PMC_alive\<close>, the collector's callback: the call is recorded, in
  order; a PMC marked twice is recorded twice.
\<close>

definition Parrot_gc_mark_PMC_alive :: "parrot_interp \<Rightarrow> pmc \<Rightarrow> parrot_interp" where
  "Parrot_gc_mark_PMC_alive interp p = interp\<lparr>gc_marked := gc_marked interp @ [p]\<rparr>"

text \<open>
  \<^verbatim>\<open>Parrot_ex_throw_from_c_args\<close> does not return: the function that calls it ends with
  the exception. The exception object itself is not part of the state.
\<close>

definition Parrot_ex_throw_from_c_args ::
  "parrot_interp \<Rightarrow> exception_type \<Rightarrow> string \<Rightarrow> 'a result" where
  "Parrot_ex_throw_from_c_args interp ty msg = (Inl (Exception ty msg), interp)"

subsection \<open>What rakudoobject.h and rakudoobject.c provide\<close>

text \<open>
  Modelled from the spec: the macro \<^verbatim>\<open>STABLE_STRUCT\<close> of rakudoobject.h is missing. It
  gives the STable struct of an STable PMC: the PMC's data pointer.
\<close>

definition STABLE_STRUCT :: "parrot_interp \<Rightarrow> pmc \<Rightarrow> addr option" where
  "STABLE_STRUCT interp st_pmc = PMC_data interp st_pmc"

text \<open>
  Modelled from the spec: the macro \<^verbatim>\<open>STABLE_PMC\<close> of rakudoobject.h is missing. It
  gives the STable reference of an object: the field \<^verbatim>\<open>stable\<close> of the commonalities
  at the head of the struct the PMC's data pointer points to.
\<close>

definition STABLE_PMC :: "parrot_interp \<Rightarrow> pmc \<Rightarrow> pmc option" where
  "STABLE_PMC interp obj =
     (case PMC_data interp obj of
        None \<Rightarrow> None
      | Some d \<Rightarrow>
          (case KnowHOWREPRInstance_at interp d of
             None \<Rightarrow> None
           | Some i \<Rightarrow> Some (stable (common i))))"

text \<open>
  Modelled from the spec: \<^verbatim>\<open>create_stable\<close> of rakudoobject.c is missing. It makes
  "a newly created STable linking representation, type object, and meta-object": a new
  STable struct holding the representation and the meta-object it is given, the type
  object not yet set, and a new PMC for it.
\<close>

definition create_stable :: "parrot_interp \<Rightarrow> pmc \<Rightarrow> pmc \<Rightarrow> pmc \<times> parrot_interp" where
  "create_stable interp repr how =
     (PMC (length (arena interp)),
      interp\<lparr>cmem := cmem interp @ [STable_struct \<lparr>REPR = repr, HOW = how, WHAT = NULL\<rparr>],
             arena := arena interp @ [Data_PMC (length (cmem interp))]\<rparr>)"

text \<open>
  Modelled from the spec: \<^verbatim>\<open>wrap_object\<close> of rakudoobject.c is missing. It makes the
  PMC that is the object: a new PMC whose data pointer is the struct it is given.
\<close>

definition wrap_object :: "parrot_interp \<Rightarrow> addr \<Rightarrow> pmc \<times> parrot_interp" where
  "wrap_object interp obj =
     (PMC (length (arena interp)), interp\<lparr>arena := arena interp @ [Data_PMC obj]\<rparr>)"

subsection \<open>The functions of KnowHOWREPR.c\<close>

text \<open>Creates a new type object of this representation, and associates it with the given HOW.\<close>

definition type_object_for :: "parrot_interp \<Rightarrow> pmc \<Rightarrow> pmc \<Rightarrow> pmc result" where
  "type_object_for interp self how =
     (let (obj, i1) = mem_allocate_zeroed_typed_KnowHOWREPRInstance interp;
          (st_pmc, i2) = create_stable i1 self how
      in case STABLE_STRUCT i2 st_pmc of
           None \<Rightarrow> (Inl Invalid_pointer, i2)
         | Some st \<Rightarrow>
             (let (w, i3) = wrap_object i2 obj
              in case store_STable i3 st (\<lambda>s. s\<lparr>WHAT := w\<rparr>) of
                   None \<Rightarrow> (Inl Invalid_pointer, i3)
                 | Some i4 \<Rightarrow>
                     (case store_KnowHOWREPRInstance i4 obj
                             (\<lambda>k. k\<lparr>common := (common k)\<lparr>stable := st_pmc\<rparr>\<rparr>) of
                        None \<Rightarrow> (Inl Invalid_pointer, i4)
                      | Some i5 \<Rightarrow>
                          (case STable_at i5 st of
                             None \<Rightarrow> (Inl Invalid_pointer, i5)
                           | Some s \<Rightarrow> (Inr (WHAT s), i5)))))"

text \<open>Creates a new instance based on the type object.\<close>

definition instance_of :: "parrot_interp \<Rightarrow> pmc \<Rightarrow> pmc \<Rightarrow> pmc result" where
  "instance_of interp self what =
     (let (obj, i1) = mem_allocate_zeroed_typed_KnowHOWREPRInstance interp
      in case STABLE_PMC i1 what of
           None \<Rightarrow> (Inl Invalid_pointer, i1)
         | Some st_pmc \<Rightarrow>
             (case store_KnowHOWREPRInstance i1 obj
                     (\<lambda>k. k\<lparr>common := (common k)\<lparr>stable := st_pmc\<rparr>\<rparr>) of
                None \<Rightarrow> (Inl Invalid_pointer, i1)
              | Some i2 \<Rightarrow>
                  (let (h, i3) = pmc_new i2 enum_class_Hash
                   in case store_KnowHOWREPRInstance i3 obj (\<lambda>k. k\<lparr>methods := h\<rparr>) of
                        None \<Rightarrow> (Inl Invalid_pointer, i3)
                      | Some i4 \<Rightarrow>
                          (let (a, i5) = pmc_new i4 enum_class_ResizablePMCArray
                           in case store_KnowHOWREPRInstance i5 obj (\<lambda>k. k\<lparr>attributes := a\<rparr>) of
                                None \<Rightarrow> (Inl Invalid_pointer, i5)
                              | Some i6 \<Rightarrow>
                                  (let (w, i7) = wrap_object i6 obj in (Inr w, i7))))))"

text \<open>
  Checks if a given object is defined (from the point of view of the representation).
  The result is C's \<^verbatim>\<open>!\<close>: 1 or 0.
\<close>

definition defined :: "parrot_interp \<Rightarrow> pmc \<Rightarrow> pmc \<Rightarrow> int result" where
  "defined interp self obj =
     (case PMC_data interp obj of
        None \<Rightarrow> (Inl Invalid_pointer, interp)
      | Some d \<Rightarrow>
          (case KnowHOWREPRInstance_at interp d of
             None \<Rightarrow> (Inl Invalid_pointer, interp)
           | Some i \<Rightarrow> (Inr (if PMC_IS_NULL (methods i) then 0 else 1), interp)))"

text \<open>Gets the current value for an attribute.\<close>

definition get_attribute ::
  "parrot_interp \<Rightarrow> pmc \<Rightarrow> pmc \<Rightarrow> pmc \<Rightarrow> string \<Rightarrow> pmc result" where
  "get_attribute interp self obj class_handle name =
     Parrot_ex_throw_from_c_args interp EXCEPTION_INVALID_OPERATION
       ''KnowHOWREPR does not support attribute storage''"

text \<open>Gets the current value for an attribute, obtained using the given hint.\<close>

definition get_attribute_with_hint ::
  "parrot_interp \<Rightarrow> pmc \<Rightarrow> pmc \<Rightarrow> pmc \<Rightarrow> string \<Rightarrow> int \<Rightarrow> pmc result" where
  "get_attribute_with_hint interp self obj class_handle name hint =
     Parrot_ex_throw_from_c_args interp EXCEPTION_INVALID_OPERATION
       ''KnowHOWREPR does not support attribute storage''"

text \<open>Binds the given value to the specified attribute.\<close>

definition bind_attribute ::
  "parrot_interp \<Rightarrow> pmc \<Rightarrow> pmc \<Rightarrow> pmc \<Rightarrow> string \<Rightarrow> pmc \<Rightarrow> unit result" where
  "bind_attribute interp self obj class_handle name v =
     Parrot_ex_throw_from_c_args interp EXCEPTION_INVALID_OPERATION
       ''KnowHOWREPR does not support attribute storage''"

text \<open>Binds the given value to the specified attribute, using the given hint.\<close>

definition bind_attribute_with_hint ::
  "parrot_interp \<Rightarrow> pmc \<Rightarrow> pmc \<Rightarrow> pmc \<Rightarrow> string \<Rightarrow> int \<Rightarrow> pmc \<Rightarrow> unit result" where
  "bind_attribute_with_hint interp self obj class_handle name hint v =
     Parrot_ex_throw_from_c_args interp EXCEPTION_INVALID_OPERATION
       ''KnowHOWREPR does not support attribute storage''"

text \<open>
  Gets the hint for the given attribute ID. The macro \<^verbatim>\<open>NO_HINT\<close> of rakudoobject.h is
  missing: its value is the first argument.
\<close>

definition hint_for :: "int \<Rightarrow> parrot_interp \<Rightarrow> pmc \<Rightarrow> pmc \<Rightarrow> string \<Rightarrow> int result" where
  "hint_for NO_HINT interp self class_handle name = (Inr NO_HINT, interp)"

text \<open>Parrot's floating-point type. No function here looks into a value of it.\<close>

typedecl FLOATVAL

text \<open>Used with boxing. Sets an integer value, for representations that can hold one.\<close>

definition set_int :: "parrot_interp \<Rightarrow> pmc \<Rightarrow> pmc \<Rightarrow> int \<Rightarrow> unit result" where
  "set_int interp self obj v =
     Parrot_ex_throw_from_c_args interp EXCEPTION_INVALID_OPERATION
       ''KnowHOWREPR cannot box a native int''"

text \<open>Used with boxing. Gets an integer value, for representations that can hold one.\<close>

definition get_int :: "parrot_interp \<Rightarrow> pmc \<Rightarrow> pmc \<Rightarrow> int result" where
  "get_int interp self obj =
     Parrot_ex_throw_from_c_args interp EXCEPTION_INVALID_OPERATION
       ''KnowHOWREPR cannot unbox to a native int''"

text \<open>Used with boxing. Sets a floating point value, for representations that can hold one.\<close>

definition set_num :: "parrot_interp \<Rightarrow> pmc \<Rightarrow> pmc \<Rightarrow> FLOATVAL \<Rightarrow> unit result" where
  "set_num interp self obj v =
     Parrot_ex_throw_from_c_args interp EXCEPTION_INVALID_OPERATION
       ''KnowHOWREPR cannot box a native num''"

text \<open>Used with boxing. Gets a floating point value, for representations that can hold one.\<close>

definition get_num :: "parrot_interp \<Rightarrow> pmc \<Rightarrow> pmc \<Rightarrow> FLOATVAL result" where
  "get_num interp self obj =
     Parrot_ex_throw_from_c_args interp EXCEPTION_INVALID_OPERATION
       ''KnowHOWREPR cannot unbox to a native num''"

text \<open>Used with boxing. Sets a string value, for representations that can hold one.\<close>

definition set_str :: "parrot_interp \<Rightarrow> pmc \<Rightarrow> pmc \<Rightarrow> string \<Rightarrow> unit result" where
  "set_str interp self obj v =
     Parrot_ex_throw_from_c_args interp EXCEPTION_INVALID_OPERATION
       ''KnowHOWREPR cannot box a native string''"

text \<open>Used with boxing. Gets a string value, for representations that can hold one.\<close>

definition get_str :: "parrot_interp \<Rightarrow> pmc \<Rightarrow> pmc \<Rightarrow> string result" where
  "get_str interp self obj =
     Parrot_ex_throw_from_c_args interp EXCEPTION_INVALID_OPERATION
       ''KnowHOWREPR cannot unbox to a native string''"

text \<open>This Parrot-specific addition to the API is used to mark an object.\<close>

definition gc_mark :: "parrot_interp \<Rightarrow> pmc \<Rightarrow> pmc \<Rightarrow> unit result" where
  "gc_mark interp self obj =
     (case PMC_data interp obj of
        None \<Rightarrow> (Inl Invalid_pointer, interp)
      | Some d \<Rightarrow>
          (case KnowHOWREPRInstance_at interp d of
             None \<Rightarrow> (Inl Invalid_pointer, interp)
           | Some instance \<Rightarrow>
               (let i1 = (if \<not> PMC_IS_NULL (stable (common instance))
                          then Parrot_gc_mark_PMC_alive interp (stable (common instance))
                          else interp);
                    i2 = (if \<not> PMC_IS_NULL (methods instance)
                          then Parrot_gc_mark_PMC_alive i1 (methods instance)
                          else i1);
                    i3 = (if \<not> PMC_IS_NULL (attributes instance)
                          then Parrot_gc_mark_PMC_alive i2 (attributes instance)
                          else i2)
                in (Inr (), i3))))"

subsection \<open>Observing an object\<close>

text \<open>
  The struct of a KnowHOW object, as \<open>defined\<close> and \<open>gc_mark\<close> reach it:
  \<^verbatim>\<open>(KnowHOWREPRInstance *)PMC_data(obj)\<close>, read.
\<close>

definition KnowHOWREPRInstance_of :: "parrot_interp \<Rightarrow> pmc \<Rightarrow> KnowHOWREPRInstance option" where
  "KnowHOWREPRInstance_of interp obj =
     (case PMC_data interp obj of None \<Rightarrow> None | Some d \<Rightarrow> KnowHOWREPRInstance_at interp d)"

text \<open>The PMC a pointer points to.\<close>

definition pmc_at :: "parrot_interp \<Rightarrow> pmc \<Rightarrow> pmc_obj option" where
  "pmc_at interp p =
     (case p of
        PMC a \<Rightarrow> (if a < length (arena interp) then Some (arena interp ! a) else None)
      | _ \<Rightarrow> None)"

text \<open>
  A PMC is fresh for an interpreter when it points beyond the arena: no PMC of the
  interpreter is at its index.
\<close>

definition fresh_for :: "parrot_interp \<Rightarrow> pmc \<Rightarrow> bool" where
  "fresh_for interp p = (case p of PMC a \<Rightarrow> length (arena interp) \<le> a | _ \<Rightarrow> False)"

subsection \<open>Example interpreters\<close>

text \<open>
  An interpreter before the bootstrap: \<open>PMC 0\<close> is the PMC of the KnowHOW representation,
  \<open>PMC 1\<close> a meta-object.
\<close>

definition bootstrap_interp :: parrot_interp where
  "bootstrap_interp = \<lparr>cmem = [], arena = [Other_PMC, Other_PMC], gc_marked = []\<rparr>"

text \<open>
  \<open>bootstrap_interp\<close> after \<open>type_object_for\<close> has made the type object \<open>PMC 3\<close>, with the
  STable \<open>PMC 2\<close>.
\<close>

definition type_object_interp :: parrot_interp where
  "type_object_interp =
     \<lparr>cmem = [KnowHOWREPRInstance_struct
                \<lparr>common = \<lparr>stable = PMC 2\<rparr>, methods = NULL, attributes = NULL\<rparr>,
              STable_struct \<lparr>REPR = PMC 0, HOW = PMC 1, WHAT = PMC 3\<rparr>],
      arena = [Other_PMC, Other_PMC, Data_PMC 1, Data_PMC 0],
      gc_marked = []\<rparr>"

text \<open>
  \<open>type_object_interp\<close> after \<open>instance_of\<close> has made the instance \<open>PMC 6\<close>, with the
  method mapping \<open>PMC 4\<close> and the attribute sequence \<open>PMC 5\<close>.
\<close>

definition instance_interp :: parrot_interp where
  "instance_interp =
     \<lparr>cmem = [KnowHOWREPRInstance_struct
                \<lparr>common = \<lparr>stable = PMC 2\<rparr>, methods = NULL, attributes = NULL\<rparr>,
              STable_struct \<lparr>REPR = PMC 0, HOW = PMC 1, WHAT = PMC 3\<rparr>,
              KnowHOWREPRInstance_struct
                \<lparr>common = \<lparr>stable = PMC 2\<rparr>, methods = PMC 4, attributes = PMC 5\<rparr>],
      arena = [Other_PMC, Other_PMC, Data_PMC 1, Data_PMC 0,
               Hash Map.empty, ResizablePMCArray [], Data_PMC 2],
      gc_marked = []\<rparr>"

text \<open>
  An interpreter with one object, \<open>PMC 0\<close>, that has an STable reference and an
  attribute sequence and whose method mapping is \<open>PMCNULL\<close>; the collector has marked
  \<open>PMC 1\<close> before.
\<close>

definition partial_interp :: parrot_interp where
  "partial_interp =
     \<lparr>cmem = [KnowHOWREPRInstance_struct
                \<lparr>common = \<lparr>stable = PMC 1\<rparr>, methods = PMCNULL, attributes = PMC 2\<rparr>],
      arena = [Data_PMC 0, Other_PMC, ResizablePMCArray []],
      gc_marked = [PMC 1]\<rparr>"

section \<open>Properties\<close>

subsection \<open>What the functions compute\<close>

lemmas memory_defs =
  mem_allocate_zeroed_typed_KnowHOWREPRInstance_def create_stable_def STABLE_STRUCT_def
  PMC_data_def wrap_object_def store_STable_def STable_at_def
  store_KnowHOWREPRInstance_def KnowHOWREPRInstance_at_def pmc_new_def

lemmas example_defs =
  bootstrap_interp_def type_object_interp_def instance_interp_def partial_interp_def

text \<open>
  \<open>type_object_for\<close> never fails: it adds the object's struct and the STable's struct to
  the C memory and the STable's PMC and the object's PMC to the arena, and returns the
  latter.
\<close>

lemma type_object_for_result:
  "type_object_for interp self how =
     (Inr (PMC (Suc (length (arena interp)))),
      interp\<lparr>cmem := cmem interp @
         [KnowHOWREPRInstance_struct
            \<lparr>common = \<lparr>stable = PMC (length (arena interp))\<rparr>,
               methods = NULL, attributes = NULL\<rparr>,
          STable_struct
            \<lparr>REPR = self, HOW = how, WHAT = PMC (Suc (length (arena interp)))\<rparr>],
        arena := arena interp @
          [Data_PMC (Suc (length (cmem interp))), Data_PMC (length (cmem interp))]\<rparr>)"
  by (simp add: type_object_for_def memory_defs nth_append)

text \<open>Allocations leave the STable reference of an object as it is.\<close>

lemma STABLE_PMC_extend:
  assumes "STABLE_PMC interp w = Some st"
  shows "STABLE_PMC (interp\<lparr>cmem := cmem interp @ cs, arena := arena interp @ ps\<rparr>) w = Some st"
  using assms
  by (auto simp add: STABLE_PMC_def PMC_data_def KnowHOWREPRInstance_at_def nth_append
      split: pmc.splits pmc_obj.splits option.splits if_splits)

lemma STABLE_PMC_alloc:
  assumes "STABLE_PMC interp w = Some st"
  shows "STABLE_PMC (interp\<lparr>cmem := cmem interp @ cs\<rparr>) w = Some st"
  using STABLE_PMC_extend [OF assms, where cs = cs and ps = "[]"] by simp

text \<open>
  \<open>instance_of\<close>, given an object with an STable reference: it adds one struct to the C
  memory and the Hash, the ResizablePMCArray and the instance's PMC to the arena.
\<close>

lemma instance_of_result:
  assumes "STABLE_PMC interp what = Some st"
  shows "instance_of interp self what =
    (Inr (PMC (Suc (Suc (length (arena interp))))),
     interp\<lparr>cmem := cmem interp @
        [KnowHOWREPRInstance_struct
           \<lparr>common = \<lparr>stable = st\<rparr>, methods = PMC (length (arena interp)),
              attributes = PMC (Suc (length (arena interp)))\<rparr>],
       arena := arena interp @
         [Hash Map.empty, ResizablePMCArray [], Data_PMC (length (cmem interp))]\<rparr>)"
  using STABLE_PMC_alloc [OF assms]
  by (simp add: instance_of_def memory_defs nth_append)

lemma KnowHOWREPRInstance_of_new:
  "KnowHOWREPRInstance_of
     (interp\<lparr>cmem := cmem interp @ [KnowHOWREPRInstance_struct k],
             arena := arena interp @ [p, q, Data_PMC (length (cmem interp))]\<rparr>)
     (PMC (Suc (Suc (length (arena interp))))) = Some k"
  by (simp add: KnowHOWREPRInstance_of_def PMC_data_def KnowHOWREPRInstance_at_def nth_append)

lemma KnowHOWREPRInstance_of_type_object:
  "KnowHOWREPRInstance_of
     (interp\<lparr>cmem := cmem interp @ [KnowHOWREPRInstance_struct k, c],
             arena := arena interp @ [p, Data_PMC (length (cmem interp))]\<rparr>)
     (PMC (Suc (length (arena interp)))) = Some k"
  by (simp add: KnowHOWREPRInstance_of_def PMC_data_def KnowHOWREPRInstance_at_def nth_append)

lemma STABLE_PMC_KnowHOWREPRInstance_of:
  "STABLE_PMC interp obj = map_option (\<lambda>k. stable (common k)) (KnowHOWREPRInstance_of interp obj)"
  by (simp add: STABLE_PMC_def KnowHOWREPRInstance_of_def split: option.splits)

lemma defined_result:
  assumes "KnowHOWREPRInstance_of interp obj = Some k"
  shows "defined interp self obj = (Inr (if PMC_IS_NULL (methods k) then 0 else 1), interp)"
  using assms
  by (auto simp add: defined_def KnowHOWREPRInstance_of_def split: option.splits)

lemma gc_mark_result:
  assumes "KnowHOWREPRInstance_of interp obj = Some k"
  shows "gc_mark interp self obj =
    (Inr (), interp\<lparr>gc_marked := gc_marked interp @
       filter (\<lambda>p. \<not> PMC_IS_NULL p) [stable (common k), methods k, attributes k]\<rparr>)"
  using assms
  by (auto simp add: gc_mark_def KnowHOWREPRInstance_of_def Parrot_gc_mark_PMC_alive_def
      split: option.splits)

subsection \<open>What the specification states of the representation\<close>

text \<open>
  C1: for every KnowHOW object, with the fields its struct holds, \<open>gc_mark\<close> returns and
  the calls of \<open>Parrot_gc_mark_PMC_alive\<close> (the tracer) it has added are, in this order,
  one on the STable reference, one on the method mapping and one on the attribute
  sequence, without those of the three that are null (\<open>NULL\<close> or \<open>PMCNULL\<close>); nothing
  else of the interpreter changes.
\<close>

theorem C1_gc_mark_visits_fields_in_order:
  assumes "KnowHOWREPRInstance_of interp obj = Some k"
  shows "gc_mark interp self obj =
    (Inr (), interp\<lparr>gc_marked := gc_marked interp @
       filter (\<lambda>p. \<not> PMC_IS_NULL p) [stable (common k), methods k, attributes k]\<rparr>)"
proof -
  obtain d where d: "PMC_data interp obj = Some d" and s: "KnowHOWREPRInstance_at interp d = Some k"
    using assms by (auto simp add: KnowHOWREPRInstance_of_def split: option.splits)
  show ?thesis
    by (simp add: gc_mark_def d s Parrot_gc_mark_PMC_alive_def)
qed

theorem C1_gc_mark_witness:
  "KnowHOWREPRInstance_of partial_interp (PMC 0) =
     Some \<lparr>common = \<lparr>stable = PMC 1\<rparr>, methods = PMCNULL, attributes = PMC 2\<rparr>
   \<and> gc_mark partial_interp NULL (PMC 0) =
       (Inr (), partial_interp\<lparr>gc_marked := [PMC 1, PMC 1, PMC 2]\<rparr>)"
proof -
  have h: "KnowHOWREPRInstance_of partial_interp (PMC 0) =
      Some \<lparr>common = \<lparr>stable = PMC 1\<rparr>, methods = PMCNULL, attributes = PMC 2\<rparr>"
    by (simp add: KnowHOWREPRInstance_of_def PMC_data_def KnowHOWREPRInstance_at_def
        partial_interp_def)
  have m: "gc_marked partial_interp = [PMC 1]"
    by (simp add: partial_interp_def)
  show ?thesis
    using h C1_gc_mark_visits_fields_in_order [OF h, of NULL]
    by (simp add: PMC_IS_NULL_def m)
qed

text \<open>
  C2: for every interpreter state, object, class handle, attribute name, hint and
  value, each of \<open>get_attribute\<close>, \<open>get_attribute_with_hint\<close>, \<open>bind_attribute\<close> and
  \<open>bind_attribute_with_hint\<close> ends with the exception \<open>EXCEPTION_INVALID_OPERATION\<close>
  (the spec's UnsupportedOperation), "KnowHOWREPR does not support attribute storage",
  and the interpreter it leaves is the one it was given: the object's struct, its
  method mapping and its attribute sequence are as before.
\<close>

theorem C2_attribute_operations_throw:
  "get_attribute interp self obj class_handle name =
     (Inl (Exception EXCEPTION_INVALID_OPERATION
        ''KnowHOWREPR does not support attribute storage''), interp)
   \<and> get_attribute_with_hint interp self obj class_handle name hint =
     (Inl (Exception EXCEPTION_INVALID_OPERATION
        ''KnowHOWREPR does not support attribute storage''), interp)
   \<and> bind_attribute interp self obj class_handle name v =
     (Inl (Exception EXCEPTION_INVALID_OPERATION
        ''KnowHOWREPR does not support attribute storage''), interp)
   \<and> bind_attribute_with_hint interp self obj class_handle name hint v =
     (Inl (Exception EXCEPTION_INVALID_OPERATION
        ''KnowHOWREPR does not support attribute storage''), interp)"
  by (simp add: get_attribute_def get_attribute_with_hint_def bind_attribute_def
      bind_attribute_with_hint_def Parrot_ex_throw_from_c_args_def)

text \<open>
  C3: for every interpreter state, representation and meta-object, \<open>type_object_for\<close>
  returns a type object, and \<open>defined\<close> on it returns 0 (false): the method mapping of
  its struct is the null pointer of the zeroed allocation.
\<close>

theorem C3_type_object_not_defined:
  "\<exists>T i1 k. type_object_for interp self how = (Inr T, i1)
     \<and> KnowHOWREPRInstance_of i1 T = Some k \<and> methods k = NULL
     \<and> defined i1 self T = (Inr 0, i1)"
proof -
  let ?T = "PMC (Suc (length (arena interp)))"
  let ?k = "\<lparr>common = \<lparr>stable = PMC (length (arena interp))\<rparr>,
             methods = NULL, attributes = NULL\<rparr>"
  obtain i1 where r: "type_object_for interp self how = (Inr ?T, i1)"
    and k: "KnowHOWREPRInstance_of i1 ?T = Some ?k"
    using KnowHOWREPRInstance_of_type_object [where interp = interp and k = ?k]
    by (simp add: type_object_for_result)
  have "defined i1 self ?T = (Inr 0, i1)"
    using defined_result [OF k, of self] by (simp add: PMC_IS_NULL_def)
  with r k show ?thesis by force
qed

text \<open>
  C4: for every type object \<open>T\<close> that \<open>type_object_for\<close> has returned, in every
  interpreter state in which \<open>T\<close>'s struct is as \<open>type_object_for\<close> left it (the state
  \<open>type_object_for\<close> returned is one), \<open>instance_of\<close> returns an instance on which
  \<open>defined\<close> returns 1 (true), whose method mapping is a PMC that did not exist before
  the call and is an empty Hash, and whose attribute sequence is another PMC that did
  not exist before the call and is an empty ResizablePMCArray.
\<close>

theorem C4_instance_of_type_object_defined:
  assumes "type_object_for i0 self0 how = (Inr T, i1)"
    and "KnowHOWREPRInstance_of interp T = KnowHOWREPRInstance_of i1 T"
  shows "\<exists>I i2 k. instance_of interp self T = (Inr I, i2)
     \<and> defined i2 self I = (Inr 1, i2)
     \<and> KnowHOWREPRInstance_of i2 I = Some k
     \<and> fresh_for interp (methods k) \<and> pmc_at i2 (methods k) = Some (Hash Map.empty)
     \<and> fresh_for interp (attributes k)
     \<and> pmc_at i2 (attributes k) = Some (ResizablePMCArray [])
     \<and> methods k \<noteq> attributes k"
proof -
  let ?st = "PMC (length (arena i0))"
  let ?t = "\<lparr>common = \<lparr>stable = ?st\<rparr>, methods = NULL, attributes = NULL\<rparr>"
  let ?i1 = "i0\<lparr>cmem := cmem i0 @
         [KnowHOWREPRInstance_struct ?t,
          STable_struct \<lparr>REPR = self0, HOW = how, WHAT = PMC (Suc (length (arena i0)))\<rparr>],
        arena := arena i0 @
          [Data_PMC (Suc (length (cmem i0))), Data_PMC (length (cmem i0))]\<rparr>"
  have "(Inr T, i1) = type_object_for i0 self0 how"
    using assms(1) by simp
  also have "\<dots> = (Inr (PMC (Suc (length (arena i0)))), ?i1)"
    by (rule type_object_for_result)
  finally have T: "T = PMC (Suc (length (arena i0)))" and i1: "i1 = ?i1"
    by simp_all
  have "KnowHOWREPRInstance_of i1 T = Some ?t"
    unfolding T i1 by (rule KnowHOWREPRInstance_of_type_object)
  then have "KnowHOWREPRInstance_of interp T = Some ?t"
    using assms(2) by simp
  then have st: "STABLE_PMC interp T = Some ?st"
    by (simp add: STABLE_PMC_KnowHOWREPRInstance_of)
  let ?I = "PMC (Suc (Suc (length (arena interp))))"
  let ?k = "\<lparr>common = \<lparr>stable = ?st\<rparr>, methods = PMC (length (arena interp)),
             attributes = PMC (Suc (length (arena interp)))\<rparr>"
  obtain i2 where r: "instance_of interp self T = (Inr ?I, i2)"
    and k: "KnowHOWREPRInstance_of i2 ?I = Some ?k"
    and a: "arena i2 = arena interp @
              [Hash Map.empty, ResizablePMCArray [], Data_PMC (length (cmem interp))]"
    using KnowHOWREPRInstance_of_new [where interp = interp and k = ?k]
    by (simp add: instance_of_result [OF st])
  have d: "defined i2 self ?I = (Inr 1, i2)"
    using defined_result [OF k, of self] by (simp add: PMC_IS_NULL_def)
  have m: "fresh_for interp (methods ?k) \<and> pmc_at i2 (methods ?k) = Some (Hash Map.empty)"
    by (simp add: fresh_for_def pmc_at_def a nth_append)
  have s: "fresh_for interp (attributes ?k)
      \<and> pmc_at i2 (attributes ?k) = Some (ResizablePMCArray [])"
    by (simp add: fresh_for_def pmc_at_def a nth_append)
  have n: "methods ?k \<noteq> attributes ?k"
    by simp
  from r d k m s n show ?thesis
    by blast
qed

theorem C4_instance_of_type_object_witness:
  "type_object_for bootstrap_interp (PMC 0) (PMC 1) = (Inr (PMC 3), type_object_interp)
   \<and> (\<exists>I i2 k. instance_of type_object_interp (PMC 0) (PMC 3) = (Inr I, i2)
       \<and> defined i2 (PMC 0) I = (Inr 1, i2)
       \<and> KnowHOWREPRInstance_of i2 I = Some k
       \<and> fresh_for type_object_interp (methods k)
       \<and> pmc_at i2 (methods k) = Some (Hash Map.empty)
       \<and> fresh_for type_object_interp (attributes k)
       \<and> pmc_at i2 (attributes k) = Some (ResizablePMCArray [])
       \<and> methods k \<noteq> attributes k)
   \<and> instance_of type_object_interp (PMC 0) (PMC 3) = (Inr (PMC 6), instance_interp)
   \<and> defined instance_interp (PMC 0) (PMC 6) = (Inr 1, instance_interp)"
proof -
  have h: "type_object_for bootstrap_interp (PMC 0) (PMC 1) = (Inr (PMC 3), type_object_interp)"
    by (simp add: type_object_for_def memory_defs example_defs)
  have i: "instance_of type_object_interp (PMC 0) (PMC 3) = (Inr (PMC 6), instance_interp)"
    by (simp add: instance_of_def STABLE_PMC_def memory_defs example_defs)
  have d: "defined instance_interp (PMC 0) (PMC 6) = (Inr 1, instance_interp)"
    by (simp add: defined_def PMC_IS_NULL_def memory_defs instance_interp_def)
  from h i d
    C4_instance_of_type_object_defined [OF h refl, of "PMC 0"]
  show ?thesis
    by (intro conjI)
qed

text \<open>
  C5: for every object \<open>T\<close> with an STable reference, a type object among them,
  \<open>instance_of\<close> returns an instance \<open>I\<close> that is a new object (a PMC that did not exist
  before the call, other than \<open>T\<close>, whose struct is at an address that was not allocated
  before the call and is not \<open>T\<close>'s) and whose STable reference is \<open>T\<close>'s; \<open>T\<close>'s
  struct, and with it \<open>T\<close>'s STable reference, is as before.
\<close>

theorem C5_instance_shares_STable:
  assumes "STABLE_PMC interp T = Some st"
  shows "\<exists>I i2 d. instance_of interp self T = (Inr I, i2)
     \<and> fresh_for interp I \<and> I \<noteq> T
     \<and> PMC_data i2 I = Some d \<and> length (cmem interp) \<le> d \<and> PMC_data i2 T \<noteq> Some d
     \<and> STABLE_PMC i2 I = Some st
     \<and> STABLE_PMC i2 T = Some st
     \<and> KnowHOWREPRInstance_of i2 T = KnowHOWREPRInstance_of interp T"
proof -
  let ?I = "PMC (Suc (Suc (length (arena interp))))"
  let ?k = "\<lparr>common = \<lparr>stable = st\<rparr>, methods = PMC (length (arena interp)),
             attributes = PMC (Suc (length (arena interp)))\<rparr>"
  let ?i2 = "interp\<lparr>cmem := cmem interp @ [KnowHOWREPRInstance_struct ?k],
       arena := arena interp @
         [Hash Map.empty, ResizablePMCArray [], Data_PMC (length (cmem interp))]\<rparr>"
  obtain a e where T: "T = PMC a" and a: "a < length (arena interp)"
    and e: "arena interp ! a = Data_PMC e" and c: "e < length (cmem interp)"
    using assms
    by (auto simp add: STABLE_PMC_def PMC_data_def KnowHOWREPRInstance_at_def
        split: pmc.splits pmc_obj.splits option.splits if_splits)
  have r: "instance_of interp self T = (Inr ?I, ?i2)"
    by (rule instance_of_result [OF assms])
  have f: "fresh_for interp ?I"
    by (simp add: fresh_for_def)
  have n: "?I \<noteq> T"
    using a by (simp add: T)
  have d: "PMC_data ?i2 ?I = Some (length (cmem interp))"
    by (simp add: PMC_data_def nth_append)
  have dT: "PMC_data ?i2 T = Some e"
    using a e by (simp add: PMC_data_def T nth_append)
  have o: "PMC_data ?i2 T \<noteq> Some (length (cmem interp))"
    using c by (simp add: dT)
  have "KnowHOWREPRInstance_of ?i2 ?I = Some ?k"
    by (rule KnowHOWREPRInstance_of_new)
  then have s: "STABLE_PMC ?i2 ?I = Some st"
    by (simp add: STABLE_PMC_KnowHOWREPRInstance_of)
  have t: "STABLE_PMC ?i2 T = Some st"
    by (rule STABLE_PMC_extend [OF assms])
  have u: "KnowHOWREPRInstance_of ?i2 T = KnowHOWREPRInstance_of interp T"
    using a e c
    by (simp add: KnowHOWREPRInstance_of_def PMC_data_def KnowHOWREPRInstance_at_def T
        nth_append)
  have l: "length (cmem interp) \<le> length (cmem interp)"
    by simp
  from r f n d l o s t u show ?thesis
    by blast
qed

theorem C5_instance_shares_STable_witness:
  "STABLE_PMC type_object_interp (PMC 3) = Some (PMC 2)
   \<and> (\<exists>I i2 d. instance_of type_object_interp (PMC 0) (PMC 3) = (Inr I, i2)
       \<and> fresh_for type_object_interp I \<and> I \<noteq> PMC 3
       \<and> PMC_data i2 I = Some d \<and> length (cmem type_object_interp) \<le> d
       \<and> PMC_data i2 (PMC 3) \<noteq> Some d
       \<and> STABLE_PMC i2 I = Some (PMC 2)
       \<and> STABLE_PMC i2 (PMC 3) = Some (PMC 2)
       \<and> KnowHOWREPRInstance_of i2 (PMC 3) = KnowHOWREPRInstance_of type_object_interp (PMC 3))
   \<and> instance_of type_object_interp (PMC 0) (PMC 3) = (Inr (PMC 6), instance_interp)
   \<and> STABLE_PMC instance_interp (PMC 6) = Some (PMC 2)
   \<and> PMC_data instance_interp (PMC 6) = Some 2
   \<and> PMC_data instance_interp (PMC 3) = Some 0"
proof -
  have h: "STABLE_PMC type_object_interp (PMC 3) = Some (PMC 2)"
    by (simp add: STABLE_PMC_def PMC_data_def KnowHOWREPRInstance_at_def type_object_interp_def)
  have r: "instance_of type_object_interp (PMC 0) (PMC 3) = (Inr (PMC 6), instance_interp)"
    by (simp add: instance_of_def STABLE_PMC_def memory_defs example_defs)
  have i: "STABLE_PMC instance_interp (PMC 6) = Some (PMC 2)"
    by (simp add: STABLE_PMC_def PMC_data_def KnowHOWREPRInstance_at_def instance_interp_def)
  have d: "PMC_data instance_interp (PMC 6) = Some 2"
    by (simp add: PMC_data_def instance_interp_def)
  have d': "PMC_data instance_interp (PMC 3) = Some 0"
    by (simp add: PMC_data_def instance_interp_def)
  from h r i d d' C5_instance_shares_STable [OF h, of "PMC 0"] show ?thesis
    by (intro conjI)
qed

text \<open>
  C6: for every interpreter state, object and value, each of \<open>set_int\<close>, \<open>get_int\<close>,
  \<open>set_num\<close>, \<open>get_num\<close>, \<open>set_str\<close> and \<open>get_str\<close> ends with the exception
  \<open>EXCEPTION_INVALID_OPERATION\<close> (the spec's UnsupportedOperation) and its own message,
  whatever the object is, and leaves the interpreter as it was.
\<close>

theorem C6_boxing_operations_throw:
  "set_int interp self obj n =
     (Inl (Exception EXCEPTION_INVALID_OPERATION ''KnowHOWREPR cannot box a native int''),
      interp)
   \<and> get_int interp self obj =
     (Inl (Exception EXCEPTION_INVALID_OPERATION ''KnowHOWREPR cannot unbox to a native int''),
      interp)
   \<and> set_num interp self obj x =
     (Inl (Exception EXCEPTION_INVALID_OPERATION ''KnowHOWREPR cannot box a native num''),
      interp)
   \<and> get_num interp self obj =
     (Inl (Exception EXCEPTION_INVALID_OPERATION ''KnowHOWREPR cannot unbox to a native num''),
      interp)
   \<and> set_str interp self obj s =
     (Inl (Exception EXCEPTION_INVALID_OPERATION ''KnowHOWREPR cannot box a native string''),
      interp)
   \<and> get_str interp self obj =
     (Inl (Exception EXCEPTION_INVALID_OPERATION
        ''KnowHOWREPR cannot unbox to a native string''),
      interp)"
  by (simp add: set_int_def get_int_def set_num_def get_num_def set_str_def get_str_def
      Parrot_ex_throw_from_c_args_def)

text \<open>
  C7: for every interpreter state, representation \<open>self\<close> and meta-object \<open>how\<close>,
  \<open>type_object_for\<close> returns a type object \<open>T\<close>, a PMC that did not exist before, and in
  the state it returns \<open>T\<close>'s STable reference is not null and is a PMC that did not
  exist before, whose struct holds \<open>self\<close> as the representation, \<open>how\<close> as the
  meta-object and \<open>T\<close> itself as the type object.
\<close>

theorem C7_type_object_and_STable_linked:
  "\<exists>T i1 st_pmc st. type_object_for interp self how = (Inr T, i1)
     \<and> fresh_for interp T
     \<and> STABLE_PMC i1 T = Some st_pmc \<and> \<not> PMC_IS_NULL st_pmc \<and> fresh_for interp st_pmc
     \<and> STABLE_STRUCT i1 st_pmc = Some st
     \<and> STable_at i1 st = Some \<lparr>REPR = self, HOW = how, WHAT = T\<rparr>"
proof -
  let ?T = "PMC (Suc (length (arena interp)))"
  let ?st_pmc = "PMC (length (arena interp))"
  let ?k = "\<lparr>common = \<lparr>stable = ?st_pmc\<rparr>, methods = NULL, attributes = NULL\<rparr>"
  let ?i1 = "interp\<lparr>cmem := cmem interp @
         [KnowHOWREPRInstance_struct ?k,
          STable_struct \<lparr>REPR = self, HOW = how, WHAT = ?T\<rparr>],
        arena := arena interp @
          [Data_PMC (Suc (length (cmem interp))), Data_PMC (length (cmem interp))]\<rparr>"
  have r: "type_object_for interp self how = (Inr ?T, ?i1)"
    by (rule type_object_for_result)
  have f: "fresh_for interp ?T \<and> fresh_for interp ?st_pmc \<and> \<not> PMC_IS_NULL ?st_pmc"
    by (simp add: fresh_for_def PMC_IS_NULL_def)
  have "KnowHOWREPRInstance_of ?i1 ?T = Some ?k"
    by (rule KnowHOWREPRInstance_of_type_object)
  then have s: "STABLE_PMC ?i1 ?T = Some ?st_pmc"
    by (simp add: STABLE_PMC_KnowHOWREPRInstance_of)
  have p: "STABLE_STRUCT ?i1 ?st_pmc = Some (Suc (length (cmem interp)))"
    by (simp add: STABLE_STRUCT_def PMC_data_def nth_append)
  have w: "STable_at ?i1 (Suc (length (cmem interp))) =
      Some \<lparr>REPR = self, HOW = how, WHAT = ?T\<rparr>"
    by (simp add: STable_at_def nth_append)
  from r f s p w show ?thesis
    by blast
qed

text \<open>
  C8: for every class handle and every attribute name, \<open>hint_for\<close> returns the "no hint"
  sentinel \<open>NO_HINT\<close>, whatever its value is, and does not fail; the interpreter is left
  as it was.
\<close>

theorem C8_hint_for_NO_HINT:
  "hint_for NO_HINT interp self class_handle name = (Inr NO_HINT, interp)"
  by (simp add: hint_for_def)

text \<open>
  C9: \<open>instance_of\<close> reads of its argument the STable reference only. Two objects of
  one interpreter state with the same STable reference, whatever else their structs
  hold (an instance that is already defined and a type object that is not, for
  example), give the same result and the same state; and for every object \<open>W\<close> with an
  STable reference \<open>instance_of\<close> returns a PMC that did not exist before, on which
  \<open>defined\<close> returns 1 (true), and whose STable reference is \<open>W\<close>'s.
\<close>

theorem C9_instance_of_reads_only_STable:
  assumes "STABLE_PMC interp W = Some st"
    and "STABLE_PMC interp W' = Some st"
  shows "instance_of interp self W' = instance_of interp self W
     \<and> (\<exists>I i2. instance_of interp self W = (Inr I, i2)
         \<and> fresh_for interp I
         \<and> defined i2 self I = (Inr 1, i2)
         \<and> STABLE_PMC i2 I = Some st)"
proof -
  let ?I = "PMC (Suc (Suc (length (arena interp))))"
  let ?k = "\<lparr>common = \<lparr>stable = st\<rparr>, methods = PMC (length (arena interp)),
             attributes = PMC (Suc (length (arena interp)))\<rparr>"
  let ?i2 = "interp\<lparr>cmem := cmem interp @ [KnowHOWREPRInstance_struct ?k],
       arena := arena interp @
         [Hash Map.empty, ResizablePMCArray [], Data_PMC (length (cmem interp))]\<rparr>"
  have r: "instance_of interp self W = (Inr ?I, ?i2)"
    by (rule instance_of_result [OF assms(1)])
  have r': "instance_of interp self W' = (Inr ?I, ?i2)"
    by (rule instance_of_result [OF assms(2)])
  have f: "fresh_for interp ?I"
    by (simp add: fresh_for_def)
  have k: "KnowHOWREPRInstance_of ?i2 ?I = Some ?k"
    by (rule KnowHOWREPRInstance_of_new)
  have d: "defined ?i2 self ?I = (Inr 1, ?i2)"
    using defined_result [OF k, of self] by (simp add: PMC_IS_NULL_def)
  have s: "STABLE_PMC ?i2 ?I = Some st"
    using k by (simp add: STABLE_PMC_KnowHOWREPRInstance_of)
  from r r' f d s show ?thesis
    by (simp only: simp_thms) blast
qed

theorem C9_instance_of_defined_instance_witness:
  "STABLE_PMC instance_interp (PMC 6) = Some (PMC 2)
   \<and> STABLE_PMC instance_interp (PMC 3) = Some (PMC 2)
   \<and> defined instance_interp (PMC 0) (PMC 6) = (Inr 1, instance_interp)
   \<and> defined instance_interp (PMC 0) (PMC 3) = (Inr 0, instance_interp)
   \<and> instance_of instance_interp (PMC 0) (PMC 3) = instance_of instance_interp (PMC 0) (PMC 6)
   \<and> (\<exists>I i2. instance_of instance_interp (PMC 0) (PMC 6) = (Inr I, i2)
       \<and> fresh_for instance_interp I
       \<and> defined i2 (PMC 0) I = (Inr 1, i2)
       \<and> STABLE_PMC i2 I = Some (PMC 2))"
proof -
  have h: "STABLE_PMC instance_interp (PMC 6) = Some (PMC 2)"
    by (simp add: STABLE_PMC_def PMC_data_def KnowHOWREPRInstance_at_def instance_interp_def)
  have h': "STABLE_PMC instance_interp (PMC 3) = Some (PMC 2)"
    by (simp add: STABLE_PMC_def PMC_data_def KnowHOWREPRInstance_at_def instance_interp_def)
  have d: "defined instance_interp (PMC 0) (PMC 6) = (Inr 1, instance_interp)"
    by (simp add: defined_def PMC_IS_NULL_def memory_defs instance_interp_def)
  have d': "defined instance_interp (PMC 0) (PMC 3) = (Inr 0, instance_interp)"
    by (simp add: defined_def PMC_IS_NULL_def memory_defs instance_interp_def)
  from h h' d d' C9_instance_of_reads_only_STable [OF h h', of "PMC 0"] show ?thesis
    by (intro conjI) simp_all
qed

text \<open>
  C10: for every interpreter state, representation and meta-object, \<open>gc_mark\<close> on the
  type object that \<open>type_object_for\<close> has just returned adds one call of
  \<open>Parrot_gc_mark_PMC_alive\<close>, on the STable reference: the method mapping and the
  attribute sequence of the struct are the null pointers of the zeroed allocation.
\<close>

theorem C10_gc_mark_fresh_type_object:
  "\<exists>T i1 st_pmc. type_object_for interp self how = (Inr T, i1)
     \<and> KnowHOWREPRInstance_of i1 T =
         Some \<lparr>common = \<lparr>stable = st_pmc\<rparr>, methods = NULL, attributes = NULL\<rparr>
     \<and> \<not> PMC_IS_NULL st_pmc
     \<and> gc_marked i1 = gc_marked interp
     \<and> gc_mark i1 self T = (Inr (), i1\<lparr>gc_marked := gc_marked interp @ [st_pmc]\<rparr>)"
proof -
  let ?T = "PMC (Suc (length (arena interp)))"
  let ?st_pmc = "PMC (length (arena interp))"
  let ?k = "\<lparr>common = \<lparr>stable = ?st_pmc\<rparr>, methods = NULL, attributes = NULL\<rparr>"
  obtain i1 where r: "type_object_for interp self how = (Inr ?T, i1)"
    and k: "KnowHOWREPRInstance_of i1 ?T = Some ?k"
    and g: "gc_marked i1 = gc_marked interp"
    using KnowHOWREPRInstance_of_type_object [where interp = interp and k = ?k]
    by (simp add: type_object_for_result)
  have n: "\<not> PMC_IS_NULL ?st_pmc"
    by (simp add: PMC_IS_NULL_def)
  have "gc_mark i1 self ?T = (Inr (), i1\<lparr>gc_marked := gc_marked interp @ [?st_pmc]\<rparr>)"
    using gc_mark_result [OF k, of self] by (simp add: PMC_IS_NULL_def g)
  with r k n g show ?thesis
    by blast
qed

end
